theory Spec2Isabelle
  imports Complex_Main "HOL-Library.Word" "HOL-Library.AList"
begin

section \<open>The host's values\<close>

text \<open>
  \<^verbatim>\<open>common.cc\<close> sits between v8/node and the scrypt library. The values that cross the
  boundary are modelled as data; the calls into v8 and node are modelled by what they
  return on these data.

  A JavaScript string is a sequence of 16-bit code units, a node Buffer a sequence of
  bytes. A JavaScript number is a double: a rational, an infinity or NaN (every finite
  double is a rational; no arithmetic is done on numbers here, they are only converted).
\<close>

type_synonym byte = "8 word"
type_synonym jsstring = "16 word list"

datatype double = Finite rat | PlusInfinity | MinusInfinity | NaN

datatype jsvalue =
    JSUndefined
  | JSNull
  | JSBoolean bool
  | JSNumber double
  | JSString jsstring
  | JSStringObject jsstring
  | JSBuffer "byte list"
  | JSObject "(string \<times> jsvalue) list"

text \<open>An object handed in by the caller: its properties, by name.\<close>

type_synonym jsobject = "(string \<times> jsvalue) list"

definition Object_Has :: "jsobject \<Rightarrow> string \<Rightarrow> bool" where
  "Object_Has obj key = (map_of obj key \<noteq> None)"

definition Object_Get :: "jsobject \<Rightarrow> string \<Rightarrow> jsvalue" where
  "Object_Get obj key = (case map_of obj key of Some v \<Rightarrow> v | None \<Rightarrow> JSUndefined)"

fun IsNumber :: "jsvalue \<Rightarrow> bool" where
  "IsNumber (JSNumber d) = True"
| "IsNumber v = False"

fun IsString :: "jsvalue \<Rightarrow> bool" where
  "IsString (JSString s) = True"
| "IsString v = False"

fun IsStringObject :: "jsvalue \<Rightarrow> bool" where
  "IsStringObject (JSStringObject s) = True"
| "IsStringObject v = False"

text \<open>
  \<^verbatim>\<open>argument->ToObject()\<close>: the value as an object. A Buffer or another object is
  itself; a primitive is wrapped, and the wrapper is written as the value it wraps (the
  source only asks of it whether it is a Buffer). \<^verbatim>\<open>undefined\<close> and \<^verbatim>\<open>null\<close> have no
  object: v8 leaves a TypeError pending and returns an empty handle, \<open>None\<close>.
\<close>

fun ToObject :: "jsvalue \<Rightarrow> jsvalue option" where
  "ToObject JSUndefined = None"
| "ToObject JSNull = None"
| "ToObject v = Some v"

text \<open>\<^verbatim>\<open>node::Buffer::HasInstance\<close> of an object: whether it is a Buffer.\<close>

fun HasInstance :: "jsvalue \<Rightarrow> bool" where
  "HasInstance (JSBuffer bs) = True"
| "HasInstance v = False"

text \<open>
  \<^verbatim>\<open>node::Buffer::HasInstance(argument->ToObject())\<close>, as the source writes it each
  time. \<^verbatim>\<open>HasInstance\<close> calls a method through the handle it is given; an empty handle
  has nothing to call it on, so there is no answer: \<open>None\<close>.
\<close>

definition HasInstance_ToObject :: "jsvalue \<Rightarrow> bool option" where
  "HasInstance_ToObject argument = map_option HasInstance (ToObject argument)"

text \<open>\<^verbatim>\<open>node::Buffer::Length\<close>, which the source calls on Buffers only.\<close>

fun Buffer_Length :: "jsvalue \<Rightarrow> nat" where
  "Buffer_Length (JSBuffer bs) = length bs"

text \<open>The text of a string or of a String object, which the host's decoders read.\<close>

fun ToString :: "jsvalue \<Rightarrow> jsstring" where
  "ToString (JSString s) = s"
| "ToString (JSStringObject s) = s"

text \<open>
  \<^verbatim>\<open>ToNumber()->Value()\<close>. Numbers convert to themselves, and the primitives as
  ECMAScript says. Strings and objects go through the host's number parser and
  \<^verbatim>\<open>valueOf\<close> protocol, which are left out: \<open>None\<close>.
\<close>

fun ToNumber :: "jsvalue \<Rightarrow> double option" where
  "ToNumber (JSNumber d) = Some d"
| "ToNumber JSUndefined = Some NaN"
| "ToNumber JSNull = Some (Finite 0)"
| "ToNumber (JSBoolean b) = Some (Finite (if b then 1 else 0))"
| "ToNumber v = None"

text \<open>
  The values the addon itself creates and stores in an error object:
  \<^verbatim>\<open>Integer::New\<close> of an \<^verbatim>\<open>int\<close> and \<^verbatim>\<open>String::New\<close> of a C string. The string is
  kept as the bytes it was made from; \<^verbatim>\<open>String::New(const char*)\<close> reads up to the
  first NUL.
\<close>

datatype jsfield = JSInteger int | JSText string

definition Integer_New :: "int \<Rightarrow> jsfield" where
  "Integer_New i = JSInteger i"

definition String_New :: "string \<Rightarrow> jsfield" where
  "String_New s = JSText (takeWhile (\<lambda>c. c \<noteq> CHR 0x00) s)"

type_synonym errorObject = "(string \<times> jsfield) list"

definition Object_New :: errorObject where
  "Object_New = []"

definition Object_Set :: "errorObject \<Rightarrow> string \<Rightarrow> jsfield \<Rightarrow> errorObject" where
  "Object_Set obj key v = AList.update key v obj"

text \<open>
  How a call ends besides returning. An \<^verbatim>\<open>assert\<close> aborts the process unless the
  addon is compiled with \<^verbatim>\<open>NDEBUG\<close>; the functions that contain one take the build as
  their first argument. A method called through an empty handle is outside what the v8
  interface defines (in practice the process crashes); nothing is returned.
\<close>

datatype 'a outcome = AssertionFailed | EmptyHandleDereferenced | Returned 'a

section \<open>Error categories and the scrypt error table\<close>

text \<open>
  Modelled from the spec: \<^verbatim>\<open>common.h\<close>, which declares the five error categories and
  \<^verbatim>\<open>ScryptParams\<close>, is not among the sources. The categories are integer constants
  whose values the spec does not give, so they are parameters of the model. The
  status codes are C \<^verbatim>\<open>int\<close>s; they are compared and passed on, never computed with,
  so they are modelled as integers.
\<close>

record categories =
  ADDONARG :: int
  JSARG :: int
  PARMOBJ :: int
  CONFIG :: int
  SCRYPT :: int

definition ScryptErrorDescr :: "int \<Rightarrow> string" where
  "ScryptErrorDescr error =
    (if error = 0 then ''success''
     else if error = 1 then ''getrlimit or sysctl(hw.usermem) failed''
     else if error = 2 then ''clock_getres or clock_gettime failed''
     else if error = 3 then ''error computing derived key''
     else if error = 4 then ''could not read salt from /dev/urandom''
     else if error = 5 then ''error in OpenSSL''
     else if error = 6 then ''malloc failed''
     else if error = 7 then ''data is not a valid scrypt-encrypted block''
     else if error = 8 then ''unrecognized scrypt format''
     else if error = 9 then ''decrypting file would take too much memory''
     else if error = 10 then ''decrypting file would take too long''
     else if error = 11 then ''password is incorrect''
     else if error = 12 then ''error writing output file''
     else if error = 13 then ''error reading input file''
     else ''error unkown'')"

section \<open>Checking and reading the scrypt parameters\<close>

text \<open>
  \<^verbatim>\<open>errMessage\<close> is a reference parameter: the function returns its status and the
  caller's message as it leaves it.
\<close>

definition CheckScryptParameters :: "categories \<Rightarrow> jsobject \<Rightarrow> string \<Rightarrow> int \<times> string" where
  "CheckScryptParameters cs obj errMessage =
    (if \<not> Object_Has obj ''N'' then (PARMOBJ cs, ''N value is not present'')
     else if \<not> Object_Has obj ''r'' then (PARMOBJ cs, ''r value is not present'')
     else if \<not> Object_Has obj ''p'' then (PARMOBJ cs, ''p value is not present'')
     else if \<not> IsNumber (Object_Get obj ''N'') then (PARMOBJ cs, ''N must be a numeric value'')
     else if \<not> IsNumber (Object_Get obj ''r'') then (PARMOBJ cs, ''r must be a numeric value'')
     else if \<not> IsNumber (Object_Get obj ''p'') then (PARMOBJ cs, ''p must be a numeric value'')
     else (0, errMessage))"

text \<open>
  Modelled from the spec: the fields of \<^verbatim>\<open>ScryptParams\<close> (declared in \<^verbatim>\<open>common.h\<close>):
  N unsigned 64-bit, r and p unsigned 32-bit.
\<close>

datatype ScryptParams = ScryptParams (sp_N: "64 word") (sp_r: "32 word") (sp_p: "32 word")

text \<open>
  The assignment stores a double in an unsigned field. C++ truncates towards zero; when
  the truncated value does not fit the field the behaviour is undefined: \<open>None\<close>.
\<close>

definition double_to_unsigned :: "double \<Rightarrow> 'a::len word option" where
  "double_to_unsigned d =
    (case d of
       Finite q \<Rightarrow>
         (let t = (if 0 \<le> q then \<lfloor>q\<rfloor> else \<lceil>q\<rceil>)
          in if 0 \<le> t \<and> t < 2 ^ LENGTH('a) then Some (word_of_int t) else None)
     | PlusInfinity \<Rightarrow> None
     | MinusInfinity \<Rightarrow> None
     | NaN \<Rightarrow> None)"

definition field_value :: "jsobject \<Rightarrow> string \<Rightarrow> 'a::len word option" where
  "field_value rhs key =
    (case ToNumber (Object_Get rhs key) of
       None \<Rightarrow> None
     | Some d \<Rightarrow> double_to_unsigned d)"

definition ScryptParams_assign :: "jsobject \<Rightarrow> ScryptParams option" where
  "ScryptParams_assign rhs =
    (case field_value rhs ''N'' of
       None \<Rightarrow> None
     | Some n \<Rightarrow>
        (case field_value rhs ''r'' of
           None \<Rightarrow> None
         | Some r \<Rightarrow>
            (case field_value rhs ''p'' of
               None \<Rightarrow> None
             | Some p \<Rightarrow> Some (ScryptParams n r p))))"

section \<open>Making error objects\<close>

text \<open>
  The general form. \<^verbatim>\<open>errorMessage\<close> is a reference parameter that the function
  assigns to: the result is the value returned (\<open>None\<close> for \<^verbatim>\<open>Null()\<close>) and the
  caller's message as the call leaves it.
\<close>

definition MakeErrorObject :: "categories \<Rightarrow> int \<Rightarrow> string \<Rightarrow> errorObject option \<times> string" where
  "MakeErrorObject cs errorCode errorMessage =
    (if errorCode \<noteq> 0 then
       (let (errorCode', errorMessage') =
              (if errorCode = ADDONARG cs then
                 (errorCode, ''Module addon argument error: '' @ errorMessage)
               else if errorCode = JSARG cs then
                 (errorCode, ''JavaScript wrapper argument error: '' @ errorMessage)
               else if errorCode = PARMOBJ cs then
                 (errorCode, ''Scrypt parameter object error: '' @ errorMessage)
               else if errorCode = CONFIG cs then
                 (errorCode, ''Scrypt config object error: '' @ errorMessage)
               else
                 (500, ''Unknown internal error - please report this error to make this module better. Details about error reporting can be found at the GitHub repo: https://github.com/barrysteyn/node-scrypt#report-errors''));
            errorObject = Object_New;
            errorObject = Object_Set errorObject ''err_code'' (Integer_New errorCode');
            errorObject = Object_Set errorObject ''err_message'' (String_New errorMessage')
        in (Some errorObject, errorMessage'))
     else (None, errorMessage))"

text \<open>The form for errors of the scrypt library (the second overload).\<close>

definition MakeErrorObject_scrypt ::
    "bool \<Rightarrow> categories \<Rightarrow> int \<Rightarrow> int \<Rightarrow> errorObject option outcome" where
  "MakeErrorObject_scrypt ndebug cs errorCode scryptErrorCode =
    (if \<not> ndebug \<and> errorCode \<noteq> SCRYPT cs then AssertionFailed
     else if scryptErrorCode \<noteq> 0 then
       (let errorObject = Object_New;
            errorObject = Object_Set errorObject ''err_code'' (Integer_New errorCode);
            errorObject = Object_Set errorObject ''err_message'' (String_New ''Scrypt error'');
            errorObject = Object_Set errorObject ''scrypt_err_code'' (Integer_New scryptErrorCode);
            errorObject = Object_Set errorObject ''scrypt_err_message''
                            (String_New (ScryptErrorDescr scryptErrorCode))
        in Returned (Some errorObject))
     else Returned None)"

section \<open>Producing a Buffer argument\<close>

text \<open>
  The encodings of \<^verbatim>\<open>node.h\<close>. \<^verbatim>\<open>node::DecodeBytes\<close> and \<^verbatim>\<open>node::DecodeWrite\<close> belong
  to the host: the first gives the number of bytes a string takes in an encoding, the
  second writes the string's bytes into a region of a given size and returns how many it
  wrote. They are parameters of the model; \<open>DecodeWrite\<close> gives the bytes written.
\<close>

datatype encoding = ASCII | UTF8 | BASE64 | UCS2 | BINARY | HEX | BUFFER

record host =
  DecodeBytes :: "jsstring \<Rightarrow> encoding \<Rightarrow> nat"
  DecodeWrite :: "nat \<Rightarrow> jsstring \<Rightarrow> encoding \<Rightarrow> byte list"

text \<open>
  \<^verbatim>\<open>argument\<close> and \<^verbatim>\<open>errorMessage\<close> are reference parameters: the result is the
  status, the argument and the message as the call leaves them. \<open>CreateBuffer\<close> wraps
  the allocated region without copying, so the Buffer holds what \<open>DecodeWrite\<close> put
  there. The conditions are evaluated from left to right as \<^verbatim>\<open>&&\<close> does: the Buffer
  test is only made when the tests before it hold.
\<close>

definition CreateBuffer :: "byte list \<Rightarrow> jsvalue" where
  "CreateBuffer data = JSBuffer data"

definition ProduceBuffer ::
    "bool \<Rightarrow> host \<Rightarrow> jsvalue \<Rightarrow> string \<Rightarrow> string \<Rightarrow> encoding \<Rightarrow> bool
      \<Rightarrow> (int \<times> jsvalue \<times> string) outcome" where
  "ProduceBuffer ndebug h argument argName errorMessage encoding checkEmpty =
    (case (if encoding = BUFFER then HasInstance_ToObject argument else Some False) of
       None \<Rightarrow> EmptyHandleDereferenced
     | Some True \<Rightarrow> Returned (0, argument, errorMessage)
     | Some False \<Rightarrow>
    (case (if \<not> IsString argument \<and> \<not> IsStringObject argument
           then map_option Not (HasInstance_ToObject argument) else Some False) of
       None \<Rightarrow> EmptyHandleDereferenced
     | Some True \<Rightarrow> Returned (1, argument, argName @ '' must be a buffer or string'')
     | Some False \<Rightarrow>
    (case (if encoding = BUFFER then map_option Not (HasInstance_ToObject argument)
           else Some False) of
       None \<Rightarrow> EmptyHandleDereferenced
     | Some True \<Rightarrow>
         Returned (1, argument, argName @ '' must be a buffer as specified by config'')
     | Some False \<Rightarrow>
       (let converted =
              (if IsString argument \<or> IsStringObject argument then
                 (let dataLength = DecodeBytes h (ToString argument) encoding;
                      data = DecodeWrite h dataLength (ToString argument) encoding;
                      buffer = CreateBuffer data;
                      dataWritten = length data
                  in if \<not> ndebug \<and> dataWritten \<noteq> dataLength then AssertionFailed
                     else if dataWritten \<noteq> dataLength then
                       Returned (Inl (argName @ '' is probably encoded differently to what was specified''))
                     else Returned (Inr buffer))
               else Returned (Inr argument))
        in case converted of
             AssertionFailed \<Rightarrow> AssertionFailed
           | EmptyHandleDereferenced \<Rightarrow> EmptyHandleDereferenced
           | Returned (Inl message) \<Rightarrow> Returned (1, argument, message)
           | Returned (Inr argument') \<Rightarrow>
               (if checkEmpty \<and> Buffer_Length argument' = 0 then
                  Returned (1, argument', argName @ '' cannot be empty'')
                else Returned (0, argument', errorMessage))))))"

section \<open>Reference data of the specification\<close>

text \<open>
  The table of native status codes as the specification lists it, and the text of the
  catch-all message of the general form. They are written from the specification and
  compared with what the code produces.
\<close>

definition spec_status_table :: "(int \<times> string) list" where
  "spec_status_table =
    [(0, ''success''),
     (1, ''getrlimit or sysctl(hw.usermem) failed''),
     (2, ''clock_getres or clock_gettime failed''),
     (3, ''error computing derived key''),
     (4, ''could not read salt from /dev/urandom''),
     (5, ''error in OpenSSL''),
     (6, ''malloc failed''),
     (7, ''data is not a valid scrypt-encrypted block''),
     (8, ''unrecognized scrypt format''),
     (9, ''decrypting file would take too much memory''),
     (10, ''decrypting file would take too long''),
     (11, ''password is incorrect''),
     (12, ''error writing output file''),
     (13, ''error reading input file'')]"

definition spec_status_text :: "int \<Rightarrow> string" where
  "spec_status_text code =
    (case map_of spec_status_table code of Some text \<Rightarrow> text | None \<Rightarrow> ''error unknown'')"

definition unknown_internal_error :: string where
  "unknown_internal_error = ''Unknown internal error - please report this error to make this module better. Details about error reporting can be found at the GitHub repo: https://github.com/barrysteyn/node-scrypt#report-errors''"

text \<open>A numbering of the categories, used where a statement is run on concrete input.\<close>

definition example_categories :: categories where
  "example_categories = \<lparr>ADDONARG = 1, JSARG = 2, PARMOBJ = 3, CONFIG = 4, SCRYPT = 5\<rparr>"

text \<open>
  The checks of the parameter validator in the order the specification gives them, each
  with the message of its violation, and the message of the first check an object
  violates.
\<close>

definition spec_checks :: "jsobject \<Rightarrow> (bool \<times> string) list" where
  "spec_checks obj =
    [(Object_Has obj ''N'', ''N value is not present''),
     (Object_Has obj ''r'', ''r value is not present''),
     (Object_Has obj ''p'', ''p value is not present''),
     (IsNumber (Object_Get obj ''N''), ''N must be a numeric value''),
     (IsNumber (Object_Get obj ''r''), ''r must be a numeric value''),
     (IsNumber (Object_Get obj ''p''), ''p must be a numeric value'')]"

definition first_violation :: "jsobject \<Rightarrow> string option" where
  "first_violation obj = map_option snd (find (\<lambda>(ok, message). \<not> ok) (spec_checks obj))"

text \<open>
  A host for running \<open>ProduceBuffer\<close> on concrete input: node's ASCII codec. A string
  takes one byte for each code unit; writing keeps the low eight bits of each code unit
  (as v8's \<^verbatim>\<open>WriteAscii\<close> does) and stops when the region is full. \<open>ascii_Encode\<close> is
  the way back, from bytes to a string: one code unit for each byte. The examples use
  this host with the encoding \<open>ASCII\<close> only.
\<close>

definition ascii_DecodeBytes :: "jsstring \<Rightarrow> encoding \<Rightarrow> nat" where
  "ascii_DecodeBytes s enc = length s"

definition ascii_DecodeWrite :: "nat \<Rightarrow> jsstring \<Rightarrow> encoding \<Rightarrow> byte list" where
  "ascii_DecodeWrite buflen s enc = take buflen (map ucast s)"

definition ascii_Encode :: "byte list \<Rightarrow> encoding \<Rightarrow> jsstring" where
  "ascii_Encode bs enc = map ucast bs"

definition ascii_host :: host where
  "ascii_host = \<lparr>DecodeBytes = ascii_DecodeBytes, DecodeWrite = ascii_DecodeWrite\<rparr>"

section \<open>The scrypt error table\<close>

lemmas object_simps = Object_New_def Object_Set_def Integer_New_def String_New_def

lemma in_table_cases:
  fixes code :: int
  assumes "1 \<le> code" and "code \<le> 13"
  shows "code = 1 \<or> code = 2 \<or> code = 3 \<or> code = 4 \<or> code = 5 \<or> code = 6 \<or> code = 7
    \<or> code = 8 \<or> code = 9 \<or> code = 10 \<or> code = 11 \<or> code = 12 \<or> code = 13"
  using assms by arith

lemma ScryptErrorDescr_in_table:
  assumes "1 \<le> code" and "code \<le> 13"
  shows "map_of spec_status_table code = Some (ScryptErrorDescr code)"
  using in_table_cases [OF assms]
  by (elim disjE) (simp_all add: spec_status_table_def ScryptErrorDescr_def)

lemma ScryptErrorDescr_no_NUL:
  "takeWhile (\<lambda>c. c \<noteq> CHR 0x00) (ScryptErrorDescr code) = ScryptErrorDescr code"
  by (simp add: ScryptErrorDescr_def)

lemma ScryptErrorDescr_outside_table:
  assumes "code < 0 \<or> 14 \<le> code"
  shows "ScryptErrorDescr code = ''error unkown''"
  using assms by (auto simp add: ScryptErrorDescr_def)

lemma MakeErrorObject_scrypt_object:
  assumes "scryptErrorCode \<noteq> 0"
  shows "MakeErrorObject_scrypt ndebug cs (SCRYPT cs) scryptErrorCode =
    Returned (Some [(''err_code'', JSInteger (SCRYPT cs)),
                    (''err_message'', JSText ''Scrypt error''),
                    (''scrypt_err_code'', JSInteger scryptErrorCode),
                    (''scrypt_err_message'', JSText (ScryptErrorDescr scryptErrorCode))])"
  using assms
  by (simp add: MakeErrorObject_scrypt_def object_simps ScryptErrorDescr_no_NUL)

text \<open>
  C3. For a status code from 1 to 13 the scrypt form returns an object whose
  \<open>err_message\<close> is "Scrypt error", whose \<open>scrypt_err_code\<close> is the code it was given
  and whose \<open>scrypt_err_message\<close> is the text that the specification's table gives for
  that code.
\<close>

theorem MakeErrorObject_scrypt_table:
  assumes "1 \<le> code" and "code \<le> 13"
  shows "\<exists>text. map_of spec_status_table code = Some text \<and>
    MakeErrorObject_scrypt ndebug cs (SCRYPT cs) code =
      Returned (Some [(''err_code'', JSInteger (SCRYPT cs)),
                      (''err_message'', JSText ''Scrypt error''),
                      (''scrypt_err_code'', JSInteger code),
                      (''scrypt_err_message'', JSText text)])"
proof -
  from assms have "code \<noteq> 0" by simp
  then show ?thesis
    using ScryptErrorDescr_in_table [OF assms] MakeErrorObject_scrypt_object [of code ndebug cs]
    by simp
qed

theorem MakeErrorObject_scrypt_table_witness:
  "map_of spec_status_table 11 = Some ''password is incorrect'' \<and>
   MakeErrorObject_scrypt False example_categories 5 11 =
     Returned (Some [(''err_code'', JSInteger 5),
                     (''err_message'', JSText ''Scrypt error''),
                     (''scrypt_err_code'', JSInteger 11),
                     (''scrypt_err_message'', JSText ''password is incorrect'')])"
  using MakeErrorObject_scrypt_table [of 11 False example_categories]
  by (simp add: spec_status_table_def example_categories_def)

text \<open>
  C1. For a status code outside the table the specification asks for the message
  "error unknown". The default branch of \<open>ScryptErrorDescr\<close> spells it "error unkown":
  at the codes 14 and -1 the object carries the code unchanged and the misspelt text,
  which is not the text of the specification.
\<close>

theorem MakeErrorObject_scrypt_outside_table:
  "MakeErrorObject_scrypt ndebug cs (SCRYPT cs) 14 =
     Returned (Some [(''err_code'', JSInteger (SCRYPT cs)),
                     (''err_message'', JSText ''Scrypt error''),
                     (''scrypt_err_code'', JSInteger 14),
                     (''scrypt_err_message'', JSText ''error unkown'')])
   \<and> MakeErrorObject_scrypt ndebug cs (SCRYPT cs) (- 1) =
     Returned (Some [(''err_code'', JSInteger (SCRYPT cs)),
                     (''err_message'', JSText ''Scrypt error''),
                     (''scrypt_err_code'', JSInteger (- 1)),
                     (''scrypt_err_message'', JSText ''error unkown'')])
   \<and> ScryptErrorDescr 14 \<noteq> spec_status_text 14
   \<and> ScryptErrorDescr (- 1) \<noteq> spec_status_text (- 1)"
  by (simp add: MakeErrorObject_scrypt_def object_simps ScryptErrorDescr_def
      spec_status_text_def spec_status_table_def)

text \<open>
  C4. Both forms return the absent value when the code is zero: the general form for
  error code 0, leaving the caller's message as it was, and the scrypt form for scrypt
  code 0 (in its category \<open>SCRYPT\<close> in every build, and for any category where the
  assertion is compiled out).
\<close>

theorem MakeErrorObject_zero:
  "MakeErrorObject cs 0 errorMessage = (None, errorMessage)
   \<and> MakeErrorObject_scrypt ndebug cs (SCRYPT cs) 0 = Returned None
   \<and> MakeErrorObject_scrypt True cs errorCode 0 = Returned None"
  by (simp add: MakeErrorObject_def MakeErrorObject_scrypt_def)

section \<open>The general form\<close>

text \<open>
  C5. For a non-zero code that is none of the five categories the general form returns
  an object whose \<open>err_code\<close> is 500 and whose \<open>err_message\<close> is the fixed
  "Unknown internal error" text, whatever message it was given.
\<close>

theorem MakeErrorObject_unknown_category:
  assumes "errorCode \<noteq> 0"
    and "errorCode \<notin> {ADDONARG cs, JSARG cs, PARMOBJ cs, CONFIG cs, SCRYPT cs}"
  shows "fst (MakeErrorObject cs errorCode errorMessage) =
    Some [(''err_code'', JSInteger 500), (''err_message'', JSText unknown_internal_error)]"
  using assms
  by (simp add: MakeErrorObject_def object_simps unknown_internal_error_def)

theorem MakeErrorObject_unknown_category_witness:
  "(42::int) \<noteq> 0
   \<and> 42 \<notin> {ADDONARG example_categories, JSARG example_categories, PARMOBJ example_categories,
            CONFIG example_categories, SCRYPT example_categories}
   \<and> fst (MakeErrorObject example_categories 42 ''salt'') =
       Some [(''err_code'', JSInteger 500), (''err_message'', JSText unknown_internal_error)]"
  using MakeErrorObject_unknown_category [of 42 example_categories "''salt''"]
  by (simp add: example_categories_def)

text \<open>
  C10. The general form is not free of effects on its inputs: \<open>errorMessage\<close> is a
  reference that it assigns to. With the code of a category and the message "x" the
  caller's message is "Module addon argument error: x" after the call.
\<close>

theorem MakeErrorObject_changes_message:
  "snd (MakeErrorObject example_categories 1 ''x'') = ''Module addon argument error: x''
   \<and> snd (MakeErrorObject example_categories 1 ''x'') \<noteq> ''x''"
  by (simp add: MakeErrorObject_def example_categories_def)

text \<open>
  C10, amended. The general form leaves the caller's message as it was when the code
  is zero. For a non-zero code it replaces the caller's message: by the label of the
  category followed by the old message, or by the fixed text when the code is no
  category; the \<open>err_message\<close> of the object returned is made from the new message.
  The message is the only input that changes.
\<close>

theorem MakeErrorObject_message_effect:
  "snd (MakeErrorObject cs errorCode errorMessage) =
     (if errorCode = 0 then errorMessage
      else if errorCode = ADDONARG cs then ''Module addon argument error: '' @ errorMessage
      else if errorCode = JSARG cs then ''JavaScript wrapper argument error: '' @ errorMessage
      else if errorCode = PARMOBJ cs then ''Scrypt parameter object error: '' @ errorMessage
      else if errorCode = CONFIG cs then ''Scrypt config object error: '' @ errorMessage
      else unknown_internal_error)
   \<and> (errorCode = 0 \<or>
       map_option (\<lambda>obj. map_of obj ''err_message'') (fst (MakeErrorObject cs errorCode errorMessage))
         = Some (Some (String_New (snd (MakeErrorObject cs errorCode errorMessage)))))"
  by (simp add: MakeErrorObject_def Object_New_def Object_Set_def unknown_internal_error_def)

section \<open>The parameter object\<close>

lemma CheckScryptParameters_first_violation:
  "CheckScryptParameters cs obj errMessage =
    (case first_violation obj of
       Some message \<Rightarrow> (PARMOBJ cs, message)
     | None \<Rightarrow> (0, errMessage))"
  by (simp add: CheckScryptParameters_def first_violation_def spec_checks_def)

lemma first_violation_None:
  "first_violation obj = None \<longleftrightarrow>
    (\<forall>key \<in> {''N'', ''r'', ''p''}. Object_Has obj key \<and> IsNumber (Object_Get obj key))"
  by (auto simp add: first_violation_def spec_checks_def)

text \<open>
  C6. When one of N, r, p is missing or is not a number, the validator returns the
  category \<open>PARMOBJ\<close> and the message of the first check that the object violates, in
  the order: N present, r present, p present, N numeric, r numeric, p numeric.
\<close>

theorem CheckScryptParameters_reports_first:
  assumes "\<exists>key \<in> {''N'', ''r'', ''p''}. \<not> Object_Has obj key \<or> \<not> IsNumber (Object_Get obj key)"
  shows "\<exists>message. first_violation obj = Some message \<and>
    CheckScryptParameters cs obj errMessage = (PARMOBJ cs, message)"
proof -
  from assms have "first_violation obj \<noteq> None"
    unfolding first_violation_None by blast
  then obtain message where "first_violation obj = Some message"
    by blast
  then show ?thesis
    by (simp add: CheckScryptParameters_first_violation)
qed

theorem CheckScryptParameters_reports_first_witness:
  "\<not> Object_Has [(''r'', JSString []), (''p'', JSNumber (Finite 1))] ''N''
   \<and> \<not> IsNumber (Object_Get [(''r'', JSString []), (''p'', JSNumber (Finite 1))] ''r'')
   \<and> first_violation [(''r'', JSString []), (''p'', JSNumber (Finite 1))]
       = Some ''N value is not present''
   \<and> CheckScryptParameters example_categories [(''r'', JSString []), (''p'', JSNumber (Finite 1))] []
       = (3, ''N value is not present'')"
proof -
  let ?obj = "[(''r'', JSString []), (''p'', JSNumber (Finite 1))]"
  have missing: "\<not> Object_Has ?obj ''N''"
    by (simp add: Object_Has_def)
  then have "\<exists>key \<in> {''N'', ''r'', ''p''}. \<not> Object_Has ?obj key \<or> \<not> IsNumber (Object_Get ?obj key)"
    by blast
  from CheckScryptParameters_reports_first [OF this, of example_categories "[]"]
  show ?thesis
    by (simp add: first_violation_def spec_checks_def Object_Has_def Object_Get_def
        example_categories_def)
qed

lemma truncation_unique:
  fixes k m :: nat and x :: rat
  assumes "of_nat k \<le> x" and "x < of_nat k + 1" and "of_nat m \<le> x" and "x < of_nat m + 1"
  shows "k = m"
proof -
  have "rat_of_nat k < rat_of_nat (m + 1)" and "rat_of_nat m < rat_of_nat (k + 1)"
    using assms by simp_all
  then have "k < m + 1" and "m < k + 1"
    unfolding of_nat_less_iff by blast+
  then show ?thesis
    by simp
qed

lemma unat_word_of_int_in_range:
  assumes "0 \<le> t" and "t < 2 ^ LENGTH('a::len)"
  shows "unat (word_of_int t :: 'a word) = nat t"
  using assms by (simp add: unat_eq_nat_uint uint_word_of_int)

lemma double_to_unsigned_truncates:
  fixes q :: rat
  assumes "- 1 < q" and "q < 2 ^ LENGTH('a::len)"
  shows "\<exists>w :: 'a word. double_to_unsigned (Finite q) = Some w
    \<and> of_nat (unat w) \<le> \<bar>q\<bar> \<and> \<bar>q\<bar> < of_nat (unat w) + 1"
proof (cases "0 \<le> q")
  case True
  have lower: "0 \<le> \<lfloor>q\<rfloor>"
    using True by simp
  have upper: "\<lfloor>q\<rfloor> < 2 ^ LENGTH('a)"
    using assms(2) by (simp add: floor_less_iff)
  have conv: "double_to_unsigned (Finite q) = Some (word_of_int \<lfloor>q\<rfloor> :: 'a word)"
    using True lower upper by (simp add: double_to_unsigned_def)
  have "(of_nat (nat \<lfloor>q\<rfloor>) :: rat) = of_int \<lfloor>q\<rfloor>"
    using lower by simp
  then have "(of_nat (unat (word_of_int \<lfloor>q\<rfloor> :: 'a word)) :: rat) = of_int \<lfloor>q\<rfloor>"
    by (simp add: unat_word_of_int_in_range [OF lower upper])
  moreover have "of_int \<lfloor>q\<rfloor> \<le> \<bar>q\<bar>" and "\<bar>q\<bar> < of_int \<lfloor>q\<rfloor> + 1"
    using True floor_correct [of q] by (simp_all add: abs_of_nonneg)
  ultimately show ?thesis
    using conv by simp
next
  case False
  then have "\<lceil>q\<rceil> = 0"
    using assms(1) by (simp add: ceiling_eq_iff)
  then have "double_to_unsigned (Finite q) = Some (0 :: 'a word)"
    using False by (simp add: double_to_unsigned_def)
  moreover have "\<bar>q\<bar> < 1"
    using False assms(1) by simp
  ultimately show ?thesis
    by simp
qed

lemma field_value_truncates:
  fixes q :: rat
  assumes "map_of obj key = Some (JSNumber (Finite q))"
    and "- 1 < q" and "q < 2 ^ LENGTH('a::len)"
  shows "\<exists>w :: 'a word. field_value obj key = Some w
    \<and> of_nat (unat w) \<le> \<bar>q\<bar> \<and> \<bar>q\<bar> < of_nat (unat w) + 1"
  using double_to_unsigned_truncates [OF assms(2,3)] assms(1)
  by (simp add: field_value_def Object_Get_def)

lemma double_to_unsigned_of_nat:
  assumes "n < 2 ^ LENGTH('a::len)"
  shows "double_to_unsigned (Finite (of_nat n)) = Some (of_nat n :: 'a word)"
proof -
  have "int n < 2 ^ LENGTH('a)"
    using assms by (metis of_nat_less_iff of_nat_numeral of_nat_power)
  then show ?thesis
    by (simp add: double_to_unsigned_def)
qed

lemma field_value_of_nat:
  assumes "map_of obj key = Some (JSNumber (Finite (of_nat n)))" and "n < 2 ^ LENGTH('a::len)"
  shows "field_value obj key = Some (of_nat n :: 'a word)"
  using assms by (simp add: field_value_def Object_Get_def double_to_unsigned_of_nat)

text \<open>
  C7. The extraction stores doubles in unsigned fields: a field value that is not an
  integer is truncated. For \<open>{N: 1.5, r: 8, p: 1}\<close> the validator succeeds and the
  parameters are \<open>{1, 8, 1}\<close>: N is not the field's value.
\<close>

theorem ScryptParams_assign_truncates:
  "CheckScryptParameters example_categories
      [(''N'', JSNumber (Finite (3 / 2))), (''r'', JSNumber (Finite 8)), (''p'', JSNumber (Finite 1))] []
     = (0, [])
   \<and> ScryptParams_assign
      [(''N'', JSNumber (Finite (3 / 2))), (''r'', JSNumber (Finite 8)), (''p'', JSNumber (Finite 1))]
     = Some (ScryptParams 1 8 1)
   \<and> ToNumber (Object_Get
      [(''N'', JSNumber (Finite (3 / 2))), (''r'', JSNumber (Finite 8)), (''p'', JSNumber (Finite 1))] ''N'')
     \<noteq> Some (Finite (of_nat (unat (sp_N (ScryptParams 1 8 1)))))"
proof -
  have "\<lfloor>3 / 2 :: rat\<rfloor> = 1"
    using floor_divide_of_int_eq [of 3 2, where ?'a = rat] by simp
  then show ?thesis
    by (simp add: CheckScryptParameters_def ScryptParams_assign_def field_value_def
        double_to_unsigned_def Object_Has_def Object_Get_def)
qed

text \<open>
  C7, amended. When N, r and p are all present and numbers the validator succeeds and
  leaves the message alone. When moreover each value lies strictly between \<open>-1\<close> and
  \<open>2^64\<close> (N) or \<open>2^32\<close> (r and p), the extraction yields parameters whose N, r and p
  are the values truncated towards zero: the natural number \<open>k\<close> with
  \<open>k \<le> \<bar>q\<bar> < k + 1\<close>. In particular, when each value is a non-negative integer
  that fits its field, N, r and p are those values. Nothing is said of the other
  numbers (NaN, the infinities, values that do not fit), for which C++ leaves the
  conversion undefined.
\<close>

theorem CheckScryptParameters_well_formed:
  assumes "map_of obj ''N'' = Some (JSNumber dN)"
    and "map_of obj ''r'' = Some (JSNumber dr)"
    and "map_of obj ''p'' = Some (JSNumber dp)"
  shows "CheckScryptParameters cs obj errMessage = (0, errMessage)
    \<and> (dN = Finite qN \<and> - 1 < qN \<and> qN < 2 ^ 64 \<and> dr = Finite qr \<and> - 1 < qr \<and> qr < 2 ^ 32
          \<and> dp = Finite qp \<and> - 1 < qp \<and> qp < 2 ^ 32
        \<longrightarrow> (\<exists>params. ScryptParams_assign obj = Some params
              \<and> of_nat (unat (sp_N params)) \<le> \<bar>qN\<bar> \<and> \<bar>qN\<bar> < of_nat (unat (sp_N params)) + 1
              \<and> of_nat (unat (sp_r params)) \<le> \<bar>qr\<bar> \<and> \<bar>qr\<bar> < of_nat (unat (sp_r params)) + 1
              \<and> of_nat (unat (sp_p params)) \<le> \<bar>qp\<bar> \<and> \<bar>qp\<bar> < of_nat (unat (sp_p params)) + 1))
    \<and> (dN = Finite (of_nat n) \<and> n < 2 ^ 64 \<and> dr = Finite (of_nat r) \<and> r < 2 ^ 32
          \<and> dp = Finite (of_nat p) \<and> p < 2 ^ 32
        \<longrightarrow> ScryptParams_assign obj = Some (ScryptParams (of_nat n) (of_nat r) (of_nat p))
          \<and> unat (sp_N (ScryptParams (of_nat n) (of_nat r) (of_nat p))) = n
          \<and> unat (sp_r (ScryptParams (of_nat n) (of_nat r) (of_nat p))) = r
          \<and> unat (sp_p (ScryptParams (of_nat n) (of_nat r) (of_nat p))) = p)"
proof (intro conjI impI)
  show "CheckScryptParameters cs obj errMessage = (0, errMessage)"
    using assms by (simp add: CheckScryptParameters_def Object_Has_def Object_Get_def)
next
  assume fits: "dN = Finite qN \<and> - 1 < qN \<and> qN < 2 ^ 64 \<and> dr = Finite qr \<and> - 1 < qr \<and> qr < 2 ^ 32
    \<and> dp = Finite qp \<and> - 1 < qp \<and> qp < 2 ^ 32"
  obtain wN :: "64 word" where wN: "field_value obj ''N'' = Some wN"
      "of_nat (unat wN) \<le> \<bar>qN\<bar>" "\<bar>qN\<bar> < of_nat (unat wN) + 1"
    using field_value_truncates [of obj "''N''" qN, where ?'a = 64] assms(1) fits by auto
  obtain wr :: "32 word" where wr: "field_value obj ''r'' = Some wr"
      "of_nat (unat wr) \<le> \<bar>qr\<bar>" "\<bar>qr\<bar> < of_nat (unat wr) + 1"
    using field_value_truncates [of obj "''r''" qr, where ?'a = 32] assms(2) fits by auto
  obtain wp :: "32 word" where wp: "field_value obj ''p'' = Some wp"
      "of_nat (unat wp) \<le> \<bar>qp\<bar>" "\<bar>qp\<bar> < of_nat (unat wp) + 1"
    using field_value_truncates [of obj "''p''" qp, where ?'a = 32] assms(3) fits by auto
  have "ScryptParams_assign obj = Some (ScryptParams wN wr wp)"
    using wN(1) wr(1) wp(1) by (simp add: ScryptParams_assign_def)
  then show "\<exists>params. ScryptParams_assign obj = Some params
      \<and> of_nat (unat (sp_N params)) \<le> \<bar>qN\<bar> \<and> \<bar>qN\<bar> < of_nat (unat (sp_N params)) + 1
      \<and> of_nat (unat (sp_r params)) \<le> \<bar>qr\<bar> \<and> \<bar>qr\<bar> < of_nat (unat (sp_r params)) + 1
      \<and> of_nat (unat (sp_p params)) \<le> \<bar>qp\<bar> \<and> \<bar>qp\<bar> < of_nat (unat (sp_p params)) + 1"
    using wN(2,3) wr(2,3) wp(2,3) by simp
next
  assume fits: "dN = Finite (of_nat n) \<and> n < 2 ^ 64 \<and> dr = Finite (of_nat r) \<and> r < 2 ^ 32
    \<and> dp = Finite (of_nat p) \<and> p < 2 ^ 32"
  have "field_value obj ''N'' = Some (of_nat n :: 64 word)"
    using assms(1) fits by (intro field_value_of_nat) simp_all
  moreover have "field_value obj ''r'' = Some (of_nat r :: 32 word)"
    using assms(2) fits by (intro field_value_of_nat) simp_all
  moreover have "field_value obj ''p'' = Some (of_nat p :: 32 word)"
    using assms(3) fits by (intro field_value_of_nat) simp_all
  ultimately show "ScryptParams_assign obj = Some (ScryptParams (of_nat n) (of_nat r) (of_nat p))"
    by (simp add: ScryptParams_assign_def)
  show "unat (sp_N (ScryptParams (of_nat n) (of_nat r) (of_nat p))) = n"
    using fits by (simp add: unat_of_nat)
  show "unat (sp_r (ScryptParams (of_nat n) (of_nat r) (of_nat p))) = r"
    using fits by (simp add: unat_of_nat)
  show "unat (sp_p (ScryptParams (of_nat n) (of_nat r) (of_nat p))) = p"
    using fits by (simp add: unat_of_nat)
qed

theorem CheckScryptParameters_well_formed_witness:
  "CheckScryptParameters example_categories
      [(''N'', JSNumber (Finite 16384)), (''r'', JSNumber (Finite 8)), (''p'', JSNumber (Finite 1))] []
     = (0, [])
   \<and> ScryptParams_assign
      [(''N'', JSNumber (Finite 16384)), (''r'', JSNumber (Finite 8)), (''p'', JSNumber (Finite 1))]
     = Some (ScryptParams 16384 8 1)
   \<and> unat (sp_N (ScryptParams 16384 8 1)) = 16384
   \<and> unat (sp_r (ScryptParams 16384 8 1)) = 8
   \<and> unat (sp_p (ScryptParams 16384 8 1)) = 1
   \<and> (- 1 :: rat) < - 1 / 2 \<and> (- 1 / 2 :: rat) < 2 ^ 64 \<and> (17 / 2 :: rat) < 2 ^ 32
   \<and> CheckScryptParameters example_categories
      [(''N'', JSNumber (Finite (- 1 / 2))), (''r'', JSNumber (Finite (17 / 2))), (''p'', JSNumber (Finite 1))] []
     = (0, [])
   \<and> ScryptParams_assign
      [(''N'', JSNumber (Finite (- 1 / 2))), (''r'', JSNumber (Finite (17 / 2))), (''p'', JSNumber (Finite 1))]
     = Some (ScryptParams 0 8 1)"
proof -
  let ?whole = "[(''N'', JSNumber (Finite 16384)), (''r'', JSNumber (Finite 8)), (''p'', JSNumber (Finite 1))]"
  let ?broken = "[(''N'', JSNumber (Finite (- 1 / 2))), (''r'', JSNumber (Finite (17 / 2))),
    (''p'', JSNumber (Finite 1))]"
  have whole: "CheckScryptParameters example_categories ?whole [] = (0, [])
      \<and> ScryptParams_assign ?whole = Some (ScryptParams 16384 8 1)
      \<and> unat (sp_N (ScryptParams 16384 8 1)) = 16384
      \<and> unat (sp_r (ScryptParams 16384 8 1)) = 8
      \<and> unat (sp_p (ScryptParams 16384 8 1)) = 1"
    using CheckScryptParameters_well_formed
      [of ?whole "Finite 16384" "Finite 8" "Finite 1" example_categories "[]" 0 0 0 16384 8 1]
    by simp
  have bounds: "(- 1 :: rat) < - 1 / 2" "(- 1 / 2 :: rat) < 2 ^ 64" "(17 / 2 :: rat) < 2 ^ 32"
    by simp_all
  have broken: "CheckScryptParameters example_categories ?broken [] = (0, [])
      \<and> (\<exists>params. ScryptParams_assign ?broken = Some params
            \<and> rat_of_nat (unat (sp_N params)) \<le> 1 / 2
            \<and> rat_of_nat (unat (sp_r params)) \<le> 17 / 2
            \<and> 17 / 2 < rat_of_nat (unat (sp_r params)) + 1
            \<and> rat_of_nat (unat (sp_p params)) \<le> 1
            \<and> 1 < rat_of_nat (unat (sp_p params)) + 1)"
    using bounds CheckScryptParameters_well_formed
      [of ?broken "Finite (- 1 / 2)" "Finite (17 / 2)" "Finite 1" example_categories "[]"
          "- 1 / 2" "17 / 2" 1 0 0 0]
    by auto
  then obtain params where params: "ScryptParams_assign ?broken = Some params"
      "rat_of_nat (unat (sp_N params)) \<le> 1 / 2"
      "rat_of_nat (unat (sp_r params)) \<le> 17 / 2" "17 / 2 < rat_of_nat (unat (sp_r params)) + 1"
      "rat_of_nat (unat (sp_p params)) \<le> 1" "1 < rat_of_nat (unat (sp_p params)) + 1"
    by blast
  have "unat (sp_N params) = 0"
    using params(2) by (cases "unat (sp_N params)") simp_all
  then have N: "sp_N params = 0"
    by (simp add: unat_eq_0)
  have "unat (sp_r params) = 8"
    using params(3,4) by (intro truncation_unique [of _ "17 / 2"]) simp_all
  then have "unat (sp_r params) = unat (8 :: 32 word)"
    by simp
  then have r: "sp_r params = 8"
    unfolding word_unat_eq_iff [symmetric] .
  have "unat (sp_p params) = 1"
    using params(5,6) by (intro truncation_unique [of _ 1]) simp_all
  then have "unat (sp_p params) = unat (1 :: 32 word)"
    by simp
  then have p: "sp_p params = 1"
    unfolding word_unat_eq_iff [symmetric] .
  have "params = ScryptParams 0 8 1"
    using N r p by (cases params) simp
  then have "ScryptParams_assign ?broken = Some (ScryptParams 0 8 1)"
    using params(1) by simp
  then show ?thesis
    using whole bounds broken by blast
qed

section \<open>Producing a Buffer\<close>

lemmas ascii_host_simps =
  ascii_host_def ascii_DecodeBytes_def ascii_DecodeWrite_def ascii_Encode_def

lemma ProduceBuffer_buffer_text_mode:
  assumes "encoding \<noteq> BUFFER"
  shows "ProduceBuffer ndebug h (JSBuffer bs) argName errorMessage encoding checkEmpty =
    (if checkEmpty \<and> bs = [] then Returned (1, JSBuffer bs, argName @ '' cannot be empty'')
     else Returned (0, JSBuffer bs, errorMessage))"
  using assms by (simp add: ProduceBuffer_def HasInstance_ToObject_def)

lemma ProduceBuffer_string_text_mode:
  assumes "IsString argument \<or> IsStringObject argument"
    and "encoding \<noteq> BUFFER"
    and "length (DecodeWrite h (DecodeBytes h (ToString argument) encoding) (ToString argument) encoding)
          = DecodeBytes h (ToString argument) encoding"
  shows "ProduceBuffer ndebug h argument argName errorMessage encoding checkEmpty =
    (if checkEmpty \<and> DecodeBytes h (ToString argument) encoding = 0 then
       Returned (1, JSBuffer [], argName @ '' cannot be empty'')
     else
       Returned (0,
         JSBuffer (DecodeWrite h (DecodeBytes h (ToString argument) encoding) (ToString argument) encoding),
         errorMessage))"
  using assms
  by (cases argument)
    (auto simp add: ProduceBuffer_def HasInstance_ToObject_def Let_def CreateBuffer_def)

text \<open>
  The two refusals, for every argument that has an object: an argument that is neither
  a string, a String object nor a Buffer is refused with "<argName> must be a buffer or
  string", in every encoding; a string or String object is refused with "<argName> must
  be a buffer as specified by config" when the encoding is \<open>BUFFER\<close>. The argument is
  left as it was.
\<close>

lemma ProduceBuffer_refuses:
  "(ToObject argument \<noteq> None \<and> \<not> IsString argument \<and> \<not> IsStringObject argument
      \<and> \<not> HasInstance argument \<longrightarrow>
      ProduceBuffer ndebug h argument argName errorMessage encoding checkEmpty =
        Returned (1, argument, argName @ '' must be a buffer or string''))
   \<and> (IsString argument \<or> IsStringObject argument \<longrightarrow>
      ProduceBuffer ndebug h argument argName errorMessage BUFFER checkEmpty =
        Returned (1, argument, argName @ '' must be a buffer as specified by config''))"
  by (cases argument) (simp_all add: ProduceBuffer_def HasInstance_ToObject_def)

lemma ProduceBuffer_refuses_example:
  "ProduceBuffer False ascii_host (JSBoolean True) ''salt'' [] UTF8 True =
      Returned (1, JSBoolean True, ''salt must be a buffer or string'')
   \<and> ProduceBuffer False ascii_host (JSString [0x61]) ''salt'' [] BUFFER True =
      Returned (1, JSString [0x61], ''salt must be a buffer as specified by config'')"
  using ProduceBuffer_refuses [of "JSBoolean True" False ascii_host "''salt''" "[]" UTF8 True]
    ProduceBuffer_refuses [of "JSString [0x61]" False ascii_host "''salt''" "[]" UTF8 True]
  by simp

text \<open>
  C8. \<^verbatim>\<open>undefined\<close> and \<^verbatim>\<open>null\<close> are neither strings nor Buffers, yet they are not
  refused with "<argName> must be a buffer or string": the test of line 241 asks
  \<^verbatim>\<open>HasInstance\<close> of \<^verbatim>\<open>argument->ToObject()\<close>, which is an empty handle for them, in
  every encoding, and the call does not return. A number, which has an object, is
  refused with the message.
\<close>

theorem ProduceBuffer_undefined_argument:
  "\<not> IsString JSUndefined \<and> \<not> IsStringObject JSUndefined \<and> \<not> HasInstance JSUndefined
   \<and> ProduceBuffer ndebug h JSUndefined ''salt'' errorMessage encoding checkEmpty
       = EmptyHandleDereferenced
   \<and> \<not> IsString JSNull \<and> \<not> IsStringObject JSNull \<and> \<not> HasInstance JSNull
   \<and> ProduceBuffer ndebug h JSNull ''salt'' errorMessage encoding checkEmpty
       = EmptyHandleDereferenced
   \<and> ProduceBuffer ndebug h (JSNumber (Finite 5)) ''salt'' errorMessage encoding checkEmpty
       = Returned (1, JSNumber (Finite 5), ''salt must be a buffer or string'')"
  by (simp add: ProduceBuffer_def HasInstance_ToObject_def)

text \<open>
  C2. With the encoding \<open>BUFFER\<close> and a Buffer as argument the function returns at
  once, before the check for emptiness: an empty Buffer is accepted although
  \<open>checkEmpty\<close> is set. The same empty Buffer is refused in every other encoding.
\<close>

theorem ProduceBuffer_accepts_empty_raw_buffer:
  "ProduceBuffer ndebug h (JSBuffer []) ''salt'' errorMessage BUFFER True =
     Returned (0, JSBuffer [], errorMessage)
   \<and> Buffer_Length (JSBuffer []) = 0
   \<and> ProduceBuffer ndebug h (JSBuffer []) ''salt'' errorMessage UTF8 True =
     Returned (1, JSBuffer [], ''salt cannot be empty'')"
  by (simp add: ProduceBuffer_def HasInstance_ToObject_def)

text \<open>
  C9. The bytes of a derived Buffer need not give the string back. Under ASCII the
  one-unit strings \<open>[0x20AC]\<close> and \<open>[0xAC]\<close> both succeed with the Buffer \<open>[0xAC]\<close> of
  length 1, so no way back from bytes to strings returns both; \<open>ascii_Encode\<close> returns
  the second.
\<close>

theorem ProduceBuffer_no_roundtrip:
  "ProduceBuffer False ascii_host (JSString [0x20AC]) ''password'' [] ASCII True =
     Returned (0, JSBuffer [0xAC], [])
   \<and> ProduceBuffer False ascii_host (JSString [0xAC]) ''password'' [] ASCII True =
     Returned (0, JSBuffer [0xAC], [])
   \<and> Buffer_Length (JSBuffer [0xAC]) = DecodeBytes ascii_host [0x20AC] ASCII
   \<and> ascii_Encode [0xAC] ASCII \<noteq> [0x20AC]"
  by (simp add: ProduceBuffer_def HasInstance_ToObject_def CreateBuffer_def ascii_host_simps)

text \<open>
  C9, amended. When \<open>ProduceBuffer\<close> succeeds on a string or String object in an
  encoding other than \<open>BUFFER\<close>, the argument is replaced by a Buffer that holds exactly
  the bytes that the host's \<open>DecodeWrite\<close> wrote for the string, and its length is the
  number of bytes that the host's \<open>DecodeBytes\<close> gives for the string; the caller's
  message is left alone. The Buffer gives the string back under a decoder exactly when
  that decoder inverts \<open>DecodeWrite\<close> on this string.
\<close>

theorem ProduceBuffer_string_success:
  assumes "IsString argument \<or> IsStringObject argument"
    and "encoding \<noteq> BUFFER"
    and "ProduceBuffer ndebug h argument argName errorMessage encoding checkEmpty =
          Returned (0, argument', errorMessage')"
  shows "\<exists>bs. argument' = JSBuffer bs
    \<and> bs = DecodeWrite h (DecodeBytes h (ToString argument) encoding) (ToString argument) encoding
    \<and> Buffer_Length argument' = DecodeBytes h (ToString argument) encoding
    \<and> errorMessage' = errorMessage
    \<and> (decode bs encoding = ToString argument \<longleftrightarrow>
        decode (DecodeWrite h (DecodeBytes h (ToString argument) encoding) (ToString argument) encoding)
          encoding = ToString argument)"
  using assms
  by (cases argument)
    (auto simp add: ProduceBuffer_def HasInstance_ToObject_def Let_def CreateBuffer_def
      split: if_splits)

theorem ProduceBuffer_string_success_witness:
  "IsString (JSString [0x68, 0x69])
   \<and> ASCII \<noteq> BUFFER
   \<and> ProduceBuffer False ascii_host (JSString [0x68, 0x69]) ''password'' [] ASCII True =
       Returned (0, JSBuffer [0x68, 0x69], [])
   \<and> Buffer_Length (JSBuffer [0x68, 0x69]) = DecodeBytes ascii_host [0x68, 0x69] ASCII
   \<and> ascii_Encode [0x68, 0x69] ASCII = [0x68, 0x69]"
proof -
  have run: "ProduceBuffer False ascii_host (JSString [0x68, 0x69]) ''password'' [] ASCII True =
      Returned (0, JSBuffer [0x68, 0x69], [])"
    by (simp add: ProduceBuffer_def HasInstance_ToObject_def CreateBuffer_def ascii_host_simps)
  from ProduceBuffer_string_success [OF _ _ run, of ascii_Encode]
  show ?thesis
    using run by (simp add: ascii_host_simps)
qed

end
